theory Spec2Isabelle
  imports Main "HOL-Library.Sublist"
begin

section \<open>Packaging tasks of hover (cmd/packaging/packaging.go)\<close>

text \<open>
  The Go package terminates in two ways besides returning: \<open>os.Exit(1)\<close> after a
  \<open>log.Errorf\<close>, and a run-time panic. Both are values here. An exit carries the message
  that the code logs just before it (every exit of the package has status 1), a panic
  carries its cause. The difference matters: a panic unwinds the stack and runs the
  deferred functions, \<open>os.Exit\<close> ends the process at once and runs none.
\<close>

datatype exit_cause =
    AbsFailed string
  | AlreadyExists string
  | MkdirFailed string
  | TempDirFailed
  | ScriptFailed string
  | AlreadyInitialized string
  | NotInitialized string
  | CopyBuildFailed
  | CopyDependencyFailed string
  | ChmodFailed string
  | CleanFailed string
  | RemoveTmpFailed
  | MoveFailed string
  | TemplateParseFailed
  | CollaboratorExit

datatype panic_cause =
    IndexOutOfRange
  | TemplateExecFailed string
  | CollaboratorPanic

datatype abort = Exit exit_cause | Panic panic_cause

text \<open>How a call into a collaborator that returns no error value can end.\<close>

datatype ending = Returned | Exited | Panicked

subsection \<open>Strings\<close>

text \<open>
  Go strings are byte sequences, as \<open>string\<close> is. The package splits on the one-byte
  separators \<open>"."\<close> and \<open>"-"\<close> only, so the separator is a character. \<open>genSplit\<close>
  follows \<open>strings.genSplit\<close>: at most \<open>n\<close> pieces, the last one the unsplit rest.
\<close>

fun cut :: "char \<Rightarrow> string \<Rightarrow> (string \<times> string) option" where
  "cut c [] = None"
| "cut c (x # xs) =
     (if x = c then Some ([], xs)
      else (case cut c xs of None \<Rightarrow> None | Some (a, b) \<Rightarrow> Some (x # a, b)))"

fun genSplit :: "string \<Rightarrow> char \<Rightarrow> nat \<Rightarrow> string list" where
  "genSplit s c 0 = []"
| "genSplit s c (Suc n) =
     (if n = 0 then [s]
      else (case cut c s of None \<Rightarrow> [s] | Some (a, b) \<Rightarrow> a # genSplit b c n))"

definition Split :: "string \<Rightarrow> char \<Rightarrow> string list" where
  "Split s c = genSplit s c (Suc (count_list s c))"

definition SplitN :: "string \<Rightarrow> char \<Rightarrow> nat \<Rightarrow> string list" where
  "SplitN s c n = genSplit s c n"

text \<open>Indexing a slice panics out of range.\<close>

definition index :: "'a list \<Rightarrow> nat \<Rightarrow> abort + 'a" where
  "index xs i = (if i < length xs then Inr (xs ! i) else Inl (Panic IndexOutOfRange))"

text \<open>
  \<open>filepath.Join\<close> of two elements: empty elements are ignored, the others are joined
  by the separator. The final \<open>Clean\<close> of the Go function (removal of \<open>.\<close>, \<open>..\<close> and
  doubled separators) is not modelled: paths are compared as written.
\<close>

definition Join :: "string \<Rightarrow> string \<Rightarrow> string" where
  "Join a b = (if a = [] then b else if b = [] then a else a @ ''/'' @ b)"

fun dropLast :: "string \<Rightarrow> string" where
  "dropLast p = rev (tl (dropWhile (\<lambda>c. c \<noteq> CHR ''/'') (rev p)))"

definition Dir :: "string \<Rightarrow> string" where
  "Dir p = (if CHR ''/'' \<notin> set p then ''.'' else if dropLast p = [] then ''/'' else dropLast p)"

subsection \<open>The template renderer\<close>

text \<open>
  \<open>text/template\<close> is the Go standard library. The fragment modelled is the one the
  packaging templates are written in: literal text and field actions \<open>{{.key}}\<close>, with
  optional blanks inside the delimiters. A template with an unclosed action, or with
  an action that is not a field reference, is rejected by \<open>Parse\<close> here. The template
  is executed on a \<open>map[string]string\<close> under \<open>missingkey=error\<close>: output is
  written to the buffer node by node, and the first field that the map does not hold
  stops the execution with an error, leaving in the buffer what was written so far.
\<close>

datatype tnode = Text string | Field string

definition isIdent :: "char \<Rightarrow> bool" where
  "isIdent c \<longleftrightarrow> c \<in> set ''abcdefghijklmnopqrstuvwxyzABCDEFGHIJKLMNOPQRSTUVWXYZ0123456789_''"

definition trim :: "string \<Rightarrow> string" where
  "trim s = rev (dropWhile (\<lambda>c. c = CHR '' '') (rev (dropWhile (\<lambda>c. c = CHR '' '') s)))"

definition action :: "string \<Rightarrow> tnode option" where
  "action s =
     (case trim s of
        [] \<Rightarrow> None
      | c # k \<Rightarrow> if c = CHR ''.'' \<and> k \<noteq> [] \<and> list_all isIdent k then Some (Field k) else None)"

definition textNode :: "string \<Rightarrow> tnode list" where
  "textNode acc = (if acc = [] then [] else [Text (rev acc)])"

fun inText :: "string \<Rightarrow> string \<Rightarrow> tnode list option"
  and inAction :: "string \<Rightarrow> string \<Rightarrow> tnode list option" where
  "inText acc [] = Some (textNode acc)"
| "inText acc [c] = Some (textNode (c # acc))"
| "inText acc (c # d # cs) =
     (if c = CHR ''{'' \<and> d = CHR ''{''
      then (case inAction [] cs of None \<Rightarrow> None | Some ns \<Rightarrow> Some (textNode acc @ ns))
      else inText (c # acc) (d # cs))"
| "inAction acc [] = None"
| "inAction acc [c] = None"
| "inAction acc (c # d # cs) =
     (if c = CHR ''}'' \<and> d = CHR ''}''
      then (case action (rev acc) of
              None \<Rightarrow> None
            | Some n \<Rightarrow> (case inText [] cs of None \<Rightarrow> None | Some ns \<Rightarrow> Some (n # ns)))
      else inAction (c # acc) (d # cs))"

definition Parse :: "string \<Rightarrow> tnode list option" where
  "Parse t = inText [] t"

fun Execute :: "tnode list \<Rightarrow> (string \<rightharpoonup> string) \<Rightarrow> string \<Rightarrow> string \<times> string option" where
  "Execute [] data buf = (buf, None)"
| "Execute (Text s # ns) data buf = Execute ns data (buf @ s)"
| "Execute (Field k # ns) data buf =
     (case data k of None \<Rightarrow> (buf, Some k) | Some v \<Rightarrow> Execute ns data (buf @ v))"

text \<open>
  \<open>executeStringTemplate\<close>: a parse error is logged and exits, an execution error
  panics, and only a complete execution returns the buffer.
\<close>

definition executeStringTemplate :: "string \<Rightarrow> (string \<rightharpoonup> string) \<Rightarrow> abort + string" where
  "executeStringTemplate t data =
     (case Parse t of
        None \<Rightarrow> Inl (Exit TemplateParseFailed)
      | Some tmplFile \<Rightarrow>
          (case Execute tmplFile data [] of
             (tmplBytes, Some err) \<Rightarrow> Inl (Panic (TemplateExecFailed err))
           | (tmplBytes, None) \<Rightarrow> Inr tmplBytes))"

text \<open>
  What the specification calls the fully substituted string: every field replaced by
  the value the context gives it, and the set of keys a template refers to.
\<close>

fun substituted :: "tnode list \<Rightarrow> (string \<rightharpoonup> string) \<Rightarrow> string" where
  "substituted [] data = []"
| "substituted (Text s # ns) data = s @ substituted ns data"
| "substituted (Field k # ns) data = the (data k) @ substituted ns data"

fun referenced :: "tnode list \<Rightarrow> string list" where
  "referenced [] = []"
| "referenced (Text s # ns) = referenced ns"
| "referenced (Field k # ns) = k # referenced ns"


subsection \<open>The file system, the process state and the collaborators\<close>

text \<open>
  The file system is a map from paths to nodes. \<open>os.Stat\<close> of a path is the lookup:
  \<open>None\<close> is the error for which \<open>os.IsNotExist\<close> holds. Permission bits are not
  modelled.
\<close>

datatype node = Directory | File string

type_synonym fsys = "string \<rightharpoonup> node"

definition under :: "string \<Rightarrow> string \<Rightarrow> bool" where
  "under d p \<longleftrightarrow> p = d \<or> prefix (d @ ''/'') p"

definition ancestors :: "string \<Rightarrow> string list" where
  "ancestors p = [take i p. i \<leftarrow> [1..<length p], p ! i = CHR ''/'']"

text \<open>
  \<open>os.MkdirAll\<close> creates the directory and its missing parents, and fails when one of
  them is a file. \<open>os.RemoveAll\<close> removes the path and all below it, and succeeds on a
  path that does not exist; \<open>denied\<close> lists the paths the system refuses to remove.
  \<open>os.Chmod\<close> fails on a path that does not exist.
\<close>

definition MkdirAll :: "string \<Rightarrow> fsys \<Rightarrow> fsys option" where
  "MkdirAll p fsy =
     (if list_ex (\<lambda>q. case fsy q of Some (File c) \<Rightarrow> True | _ \<Rightarrow> False) (ancestors p @ [p])
      then None
      else Some (\<lambda>q. if q \<in> set (ancestors p @ [p]) then Some Directory else fsy q))"

definition RemoveAll :: "(string \<Rightarrow> bool) \<Rightarrow> string \<Rightarrow> fsys \<Rightarrow> fsys option" where
  "RemoveAll denied p fsy =
     (if denied p then None else Some (\<lambda>q. if under p q then None else fsy q))"

definition Chmod :: "string \<Rightarrow> fsys \<Rightarrow> fsys option" where
  "Chmod p fsy = (if fsy p = None then None else Some fsy)"

text \<open>
  The packaging task. \<open>dependsOn\<close> and \<open>templateFiles\<close> are Go maps; they are lists of
  entries here, and a loop over the map visits the entries in the order of the list,
  which stands for whatever order the run time picks. The keys of \<open>dependsOn\<close> are
  pointers to tasks: a task holds its dependencies, so the dependency graph is finite
  and has no cycle.
\<close>

datatype packagingTask = PackagingTask
  (packagingFormatName: string)
  (dependsOn: "(packagingTask \<times> string) list")
  (templateFiles: "(string \<times> string) list")
  (executableFiles: "string list")
  (linuxDesktopFileExecutablePath: string)
  (linuxDesktopFileIconPath: string)
  (generateBuildFiles: "(string \<Rightarrow> string \<Rightarrow> fsys \<Rightarrow> ending \<times> fsys) option")
  (buildOutputDirectory: string)
  (packagingScriptTemplate: string)
  (outputFileExtension: string)
  (outputFileContainsVersion: bool)
  (outputFileUsesApplicationName: bool)
  (skipAssertInitialized: bool)

text \<open>
  What the package takes from outside: constants and accessors of the packages
  \<open>build\<close>, \<open>pubspec\<close>, \<open>config\<close> and \<open>androidmanifest\<close>, the working directory and the
  temporary directory of the process, the names \<open>ioutil.TempDir\<close> draws, and the
  effects of \<open>copy.Copy\<close>, of \<open>fileutils.CopyTemplateDir\<close> and of the shell, which are
  arbitrary functions on the file system. \<open>copy.Copy\<close> and the shell report success by
  \<open>True\<close>; a collaborator without an error value returns, ends the process or panics.
\<close>

record env =
  BuildPath :: string
  OutputDirectoryPath :: "string \<Rightarrow> string"
  Getwd :: "string option"
  TempRoot :: string
  tmpSuffix :: "nat \<Rightarrow> string"
  denied :: "string \<Rightarrow> bool"
  GOARCH :: string
  pubspecName :: string
  GetDescription :: string
  GetAuthor :: string
  AndroidOrganizationName :: string
  GetApplicationName :: "string \<Rightarrow> string"
  GetExecutableName :: "string \<Rightarrow> string"
  GetPackageName :: "string \<Rightarrow> string"
  GetLicense :: string
  AssetsBox :: "string \<rightharpoonup> string"
  Copy :: "string \<Rightarrow> string \<Rightarrow> fsys \<Rightarrow> bool \<times> fsys"
  CopyTemplateDir :: "string \<Rightarrow> string \<Rightarrow> (string \<rightharpoonup> string) \<Rightarrow> fsys \<Rightarrow> ending \<times> fsys"
  bash :: "string \<Rightarrow> string \<Rightarrow> fsys \<Rightarrow> bool \<times> fsys"

text \<open>
  The steps of \<open>Pack\<close> that act on the world. The journal is not in the source: it
  records, for each such step, the task that took it, the file system it found and
  whether it succeeded, so that claims about the order of the steps can be stated.
\<close>

datatype step =
    AllocTmp
  | CopyBuild
  | CopyDep string
  | CopyTemplates
  | Generate
  | MarkExecutable string
  | CleanOutput
  | RunScript string string
  | MoveArtifact string
  | RemoveTmp string

record event =
  who :: string
  what :: step
  found :: fsys
  ok :: bool

text \<open>
  The state of the process: the file system, the two package variables \<open>once\<close> and
  \<open>templateData\<close> (\<open>once\<close> is true when the \<open>sync.Once\<close> has fired; the nil map is the
  empty map), the number of temporary names drawn, and the journal.
\<close>

record world =
  fs :: fsys
  once :: bool
  templateData :: "string \<rightharpoonup> string"
  tmpSeq :: nat
  journal :: "event list"

type_synonym 'a io = "world \<Rightarrow> (abort + 'a) \<times> world"

definition ret :: "'a \<Rightarrow> 'a io" where
  "ret x = (\<lambda>w. (Inr x, w))"

definition fail :: "abort \<Rightarrow> 'a io" where
  "fail a = (\<lambda>w. (Inl a, w))"

definition lift :: "abort + 'a \<Rightarrow> 'a io" where
  "lift r = (\<lambda>w. (r, w))"

definition bindio :: "'a io \<Rightarrow> ('a \<Rightarrow> 'b io) \<Rightarrow> 'b io" where
  "bindio m f = (\<lambda>w. case m w of (Inl a, w') \<Rightarrow> (Inl a, w') | (Inr x, w') \<Rightarrow> f x w')"

fun forEach :: "'a list \<Rightarrow> ('a \<Rightarrow> unit io) \<Rightarrow> unit io" where
  "forEach [] f = ret ()"
| "forEach (x # xs) f = bindio (f x) (\<lambda>_. forEach xs f)"

text \<open>
  \<open>deferred cleanup body\<close> is \<open>defer cleanup(); body\<close>: the deferred function runs when
  the body returns and when it panics (the panic goes on afterwards, unless the
  deferred function itself ends the process), and does not run when the body calls
  \<open>os.Exit\<close>.
\<close>

definition deferred :: "unit io \<Rightarrow> 'a io \<Rightarrow> 'a io" where
  "deferred cleanup body =
     (\<lambda>w. case body w of
        (Inr x, w') \<Rightarrow> (case cleanup w' of (Inl a, w'') \<Rightarrow> (Inl a, w'') | (Inr u, w'') \<Rightarrow> (Inr x, w''))
      | (Inl (Panic c), w') \<Rightarrow>
          (case cleanup w' of (Inl a, w'') \<Rightarrow> (Inl a, w'') | (Inr u, w'') \<Rightarrow> (Inl (Panic c), w''))
      | (Inl (Exit c), w') \<Rightarrow> (Inl (Exit c), w'))"

definition sys :: "(fsys \<Rightarrow> fsys option) \<Rightarrow> exit_cause \<Rightarrow> unit io" where
  "sys f c = (\<lambda>w. case f (fs w) of None \<Rightarrow> (Inl (Exit c), w) | Some fsy \<Rightarrow> (Inr (), w\<lparr>fs := fsy\<rparr>))"

definition external :: "(fsys \<Rightarrow> bool \<times> fsys) \<Rightarrow> exit_cause \<Rightarrow> unit io" where
  "external f c =
     (\<lambda>w. case f (fs w) of (good, fsy) \<Rightarrow> (if good then Inr () else Inl (Exit c), w\<lparr>fs := fsy\<rparr>))"

definition collaborator :: "(fsys \<Rightarrow> ending \<times> fsys) \<Rightarrow> unit io" where
  "collaborator f =
     (\<lambda>w. case f (fs w) of (e, fsy) \<Rightarrow>
        (case e of
           Returned \<Rightarrow> Inr ()
         | Exited \<Rightarrow> Inl (Exit CollaboratorExit)
         | Panicked \<Rightarrow> Inl (Panic CollaboratorPanic),
         w\<lparr>fs := fsy\<rparr>))"

definition recorded :: "string \<Rightarrow> step \<Rightarrow> 'a io \<Rightarrow> 'a io" where
  "recorded n s m =
     (\<lambda>w. case m w of (r, w') \<Rightarrow>
        (r, w'\<lparr>journal := journal w' @ [\<lparr>who = n, what = s, found = fs w, ok = (\<not> isl r)\<rparr>]\<rparr>))"


subsection \<open>Paths and directories of the package\<close>

definition packagingPath :: "env \<Rightarrow> string" where
  "packagingPath env = Join (BuildPath env) ''packaging''"

text \<open>\<open>filepath.Abs\<close> fails only when the working directory cannot be read.\<close>

definition Abs :: "env \<Rightarrow> string \<Rightarrow> string option" where
  "Abs env p =
     (if p \<noteq> [] \<and> hd p = CHR ''/'' then Some p
      else (case Getwd env of None \<Rightarrow> None | Some wd \<Rightarrow> Some (Join wd p)))"

definition packagingFormatPath :: "env \<Rightarrow> string \<Rightarrow> abort + string" where
  "packagingFormatPath env packagingFormat =
     (case Abs env (Join (packagingPath env) packagingFormat) of
        None \<Rightarrow> Inl (Exit (AbsFailed packagingFormat))
      | Some directoryPath \<Rightarrow> Inr directoryPath)"

definition createPackagingFormatDirectory :: "env \<Rightarrow> string \<Rightarrow> unit io" where
  "createPackagingFormatDirectory env packagingFormat =
     bindio (lift (packagingFormatPath env packagingFormat)) (\<lambda>p.
     bindio (\<lambda>w. (Inr (fs w p \<noteq> None), w)) (\<lambda>present.
       if present then fail (Exit (AlreadyExists packagingFormat))
       else bindio (lift (packagingFormatPath env packagingFormat)) (\<lambda>q.
            sys (MkdirAll q) (MkdirFailed packagingFormat))))"

text \<open>
  \<open>ioutil.TempDir("", prefix)\<close> makes a new directory in the temporary directory of
  the process, named by the prefix and a drawn suffix. The retries of the library on a
  name that exists are not modelled: such a draw is the error.
\<close>

definition TempDir :: "env \<Rightarrow> string \<Rightarrow> nat \<Rightarrow> fsys \<Rightarrow> (string \<times> fsys) option" where
  "TempDir env pre n fsy =
     (let p = Join (TempRoot env) (pre @ tmpSuffix env n)
      in if fsy (TempRoot env) \<noteq> Some Directory \<or> fsy p \<noteq> None then None
         else Some (p, fsy(p \<mapsto> Directory)))"

definition getTemporaryBuildDirectory :: "env \<Rightarrow> string \<Rightarrow> string \<Rightarrow> string io" where
  "getTemporaryBuildDirectory env projectName packagingFormat =
     (\<lambda>w. case TempDir env (''hover-build-'' @ projectName @ ''-'' @ packagingFormat) (tmpSeq w) (fs w) of
        None \<Rightarrow> (Inl (Exit TempDirFailed), w)
      | Some (tmpPath, fsy) \<Rightarrow> (Inr tmpPath, w\<lparr>fs := fsy, tmpSeq := Suc (tmpSeq w)\<rparr>))"

definition runPackaging :: "env \<Rightarrow> string \<Rightarrow> string \<Rightarrow> unit io" where
  "runPackaging env path command = external (bash env path command) (ScriptFailed command)"

subsection \<open>The shared template context\<close>

text \<open>
  \<open>once.Do\<close> runs its function when \<open>once\<close> has not fired, and \<open>once\<close> has fired
  from then on, also when the function panics. The function assigns the map of eleven
  entries to \<open>templateData\<close> and then adds \<open>iconPath\<close> and \<open>executablePath\<close>, each
  rendered against the map as it is at that moment.
\<close>

definition getTemplateData :: "env \<Rightarrow> packagingTask \<Rightarrow> string \<Rightarrow> string \<Rightarrow> (string \<rightharpoonup> string) io" where
  "getTemplateData env t projectName buildVersion =
     (\<lambda>w. if once w then (Inr (templateData w), w)
      else (case index (Split buildVersion CHR ''.'') 0 of
         Inl a \<Rightarrow> (Inl a, w\<lparr>once := True\<rparr>)
       | Inr release \<Rightarrow>
          (let d0 = [''projectName'' \<mapsto> projectName,
                     ''version'' \<mapsto> buildVersion,
                     ''release'' \<mapsto> release,
                     ''arch'' \<mapsto> GOARCH env,
                     ''description'' \<mapsto> GetDescription env,
                     ''organizationName'' \<mapsto> AndroidOrganizationName env,
                     ''author'' \<mapsto> GetAuthor env,
                     ''applicationName'' \<mapsto> GetApplicationName env projectName,
                     ''executableName'' \<mapsto> GetExecutableName env projectName,
                     ''packageName'' \<mapsto> GetPackageName env projectName,
                     ''license'' \<mapsto> GetLicense env];
               w0 = w\<lparr>once := True, templateData := d0\<rparr>
           in case executeStringTemplate (linuxDesktopFileIconPath t) d0 of
                Inl a \<Rightarrow> (Inl a, w0)
              | Inr icon \<Rightarrow>
                 (let d1 = d0(''iconPath'' \<mapsto> icon)
                  in case executeStringTemplate (linuxDesktopFileExecutablePath t) d1 of
                       Inl a \<Rightarrow> (Inl a, w0\<lparr>templateData := d1\<rparr>)
                     | Inr exe \<Rightarrow>
                        (Inr (d1(''executablePath'' \<mapsto> exe)),
                         w0\<lparr>templateData := d1(''executablePath'' \<mapsto> exe)\<rparr>)))))"

definition rendered :: "env \<Rightarrow> packagingTask \<Rightarrow> string \<Rightarrow> string \<Rightarrow> string \<Rightarrow> string io" where
  "rendered env t projectName buildVersion s =
     bindio (getTemplateData env t projectName buildVersion) (\<lambda>data.
     lift (executeStringTemplate s data))"

subsection \<open>Name, IsInitialized, AssertInitialized, Init\<close>

definition Name :: "packagingTask \<Rightarrow> abort + string" where
  "Name t = index (SplitN (packagingFormatName t) CHR ''-'' 2) 1"

definition IsInitialized :: "env \<Rightarrow> packagingTask \<Rightarrow> bool io" where
  "IsInitialized env t =
     bindio (lift (packagingFormatPath env (packagingFormatName t))) (\<lambda>p.
     (\<lambda>w. (Inr (fs w p \<noteq> None), w)))"

definition AssertInitialized :: "env \<Rightarrow> packagingTask \<Rightarrow> unit io" where
  "AssertInitialized env t =
     (if skipAssertInitialized t then ret ()
      else bindio (IsInitialized env t) (\<lambda>initialized.
           if \<not> initialized then fail (Exit (NotInitialized (packagingFormatName t)))
           else ret ()))"

text \<open>
  Modelled from the spec: \<open>fileutils.CopyAsset\<close> is not among the sources. The asset
  source is a key-value store of blobs (\<open>AssetsBox\<close>), and copying an asset writes the
  blob to the destination file; a missing asset ends the process.
\<close>

definition CopyAsset :: "env \<Rightarrow> string \<Rightarrow> string \<Rightarrow> unit io" where
  "CopyAsset env boxed to =
     (\<lambda>w. case AssetsBox env boxed of
        None \<Rightarrow> (Inl (Exit CollaboratorExit), w)
      | Some content \<Rightarrow> (Inr (), w\<lparr>fs := (fs w)(to \<mapsto> File content)\<rparr>))"

lemma forEach_cong [fundef_cong]:
  "xs = ys \<Longrightarrow> (\<And>x. x \<in> set ys \<Longrightarrow> f x = g x) \<Longrightarrow> forEach xs f = forEach ys g"
  by (induction ys arbitrary: xs) auto

lemma dependsOn_size: "d \<in> set (dependsOn t) \<Longrightarrow> size (fst d) < size t"
  by (cases t, cases d) (auto simp: less_Suc_eq_le dest!: size_list_estimation'[where f="size_prod size (\<lambda>_. 0)" and y = "size (fst d)"])

function init :: "env \<Rightarrow> packagingTask \<Rightarrow> bool \<Rightarrow> unit io" where
  "init env t ignoreAlreadyExists =
     bindio (forEach (dependsOn t) (\<lambda>d. init env (fst d) True)) (\<lambda>_.
     bindio (IsInitialized env t) (\<lambda>initialized.
       if \<not> initialized then
         bindio (createPackagingFormatDirectory env (packagingFormatName t)) (\<lambda>_.
         bindio (lift (packagingFormatPath env (packagingFormatName t))) (\<lambda>dir.
         bindio (forEach (templateFiles t) (\<lambda>(sourceFile, destinationFile).
                   bindio (sys (MkdirAll (Dir (Join dir destinationFile)))
                               (MkdirFailed (Dir (Join dir destinationFile)))) (\<lambda>_.
                   CopyAsset env (''packaging/'' @ sourceFile) (Join dir destinationFile)))) (\<lambda>_.
         bindio (lift (index (Split (packagingFormatName t) CHR ''-'') 0)) (\<lambda>_. ret ()))))
       else if \<not> ignoreAlreadyExists then fail (Exit (AlreadyInitialized (packagingFormatName t)))
       else ret ()))"
  by pat_completeness auto
termination
  by (relation "measure (\<lambda>(env, t, i). size t)") (auto simp: dependsOn_size)

definition Init :: "env \<Rightarrow> packagingTask \<Rightarrow> unit io" where
  "Init env t = init env t False"


subsection \<open>Pack\<close>

text \<open>The name of the artifact, as \<open>Pack\<close> builds it after the script has run.\<close>

definition outputFileName :: "env \<Rightarrow> packagingTask \<Rightarrow> string \<Rightarrow> string \<Rightarrow> string" where
  "outputFileName env t projectName buildVersion =
     (let n0 = [] @ (if outputFileUsesApplicationName t then GetApplicationName env projectName
                     else GetPackageName env projectName);
          n1 = (if outputFileContainsVersion t
                then (n0 @ (if outputFileUsesApplicationName t then '' '' else ''-'')) @ buildVersion
                else n0)
      in n1 @ ''.'' @ outputFileExtension t)"

text \<open>
  The steps of \<open>Pack\<close> that follow the \<open>defer\<close> statement, in the order of the source.
  The arguments of a call are evaluated from left to right, so the index expression of
  the first log line, which panics on a format name without a hyphen, comes first.
\<close>

definition packOwn :: "env \<Rightarrow> packagingTask \<Rightarrow> string \<Rightarrow> string \<Rightarrow> string \<Rightarrow> unit io" where
  "packOwn env t buildVersion projectName tmpPath =
     bindio (lift (index (Split (packagingFormatName t) CHR ''-'') 1)) (\<lambda>_.
     bindio (if buildOutputDirectory t \<noteq> [] then
               bindio (lift (index (Split (packagingFormatName t) CHR ''-'') 0)) (\<lambda>targetOS.
               bindio (rendered env t projectName buildVersion (Join tmpPath (buildOutputDirectory t))) (\<lambda>dst.
               recorded (packagingFormatName t) CopyBuild
                 (external (Copy env (OutputDirectoryPath env targetOS) dst) CopyBuildFailed)))
             else ret ()) (\<lambda>_.
     bindio (forEach (dependsOn t) (\<lambda>(task, destination).
               recorded (packagingFormatName t) (CopyDep (packagingFormatName task))
                 (external (Copy env (OutputDirectoryPath env (packagingFormatName task)) (Join tmpPath destination))
                           (CopyDependencyFailed (packagingFormatName task))))) (\<lambda>_.
     bindio (lift (packagingFormatPath env (packagingFormatName t))) (\<lambda>src.
     bindio (getTemplateData env t projectName buildVersion) (\<lambda>data.
     bindio (recorded (packagingFormatName t) CopyTemplates
               (collaborator (CopyTemplateDir env src tmpPath data))) (\<lambda>_.
     bindio (case generateBuildFiles t of
               None \<Rightarrow> ret ()
             | Some generate \<Rightarrow>
                 recorded (packagingFormatName t) Generate
                   (collaborator (generate (GetPackageName env projectName) tmpPath))) (\<lambda>_.
     bindio (forEach (executableFiles t) (\<lambda>file.
               bindio (rendered env t projectName buildVersion (Join tmpPath file)) (\<lambda>p.
               recorded (packagingFormatName t) (MarkExecutable file) (sys (Chmod p) (ChmodFailed file))))) (\<lambda>_.
     bindio (recorded (packagingFormatName t) CleanOutput
               (sys (RemoveAll (denied env) (OutputDirectoryPath env (packagingFormatName t)))
                    (CleanFailed (OutputDirectoryPath env (packagingFormatName t))))) (\<lambda>_.
     bindio (rendered env t projectName buildVersion (packagingScriptTemplate t)) (\<lambda>packagingScript.
     bindio (recorded (packagingFormatName t) (RunScript tmpPath packagingScript)
               (runPackaging env tmpPath packagingScript)) (\<lambda>_.
     bindio (rendered env t projectName buildVersion
               (Join (OutputDirectoryPath env (packagingFormatName t))
                     (outputFileName env t projectName buildVersion))) (\<lambda>outputFilePath.
     recorded (packagingFormatName t) (MoveArtifact outputFilePath)
       (external (Copy env (Join tmpPath (outputFileName env t projectName buildVersion)) outputFilePath)
                 (MoveFailed (outputFileName env t projectName buildVersion)))))))))))))))"

definition removeTmp :: "env \<Rightarrow> packagingTask \<Rightarrow> string \<Rightarrow> unit io" where
  "removeTmp env t tmpPath =
     recorded (packagingFormatName t) (RemoveTmp tmpPath)
       (sys (RemoveAll (denied env) tmpPath) RemoveTmpFailed)"

function Pack :: "env \<Rightarrow> packagingTask \<Rightarrow> string \<Rightarrow> unit io" where
  "Pack env t buildVersion =
     bindio (forEach (dependsOn t) (\<lambda>d. Pack env (fst d) buildVersion)) (\<lambda>_.
     bindio (recorded (packagingFormatName t) AllocTmp
               (getTemporaryBuildDirectory env (pubspecName env) (packagingFormatName t))) (\<lambda>tmpPath.
     deferred (removeTmp env t tmpPath)
              (packOwn env t buildVersion (pubspecName env) tmpPath)))"
  by pat_completeness auto
termination
  by (relation "measure (\<lambda>(env, t, v). size t)") (auto simp: dependsOn_size)


subsection \<open>What the specification names\<close>

text \<open>The first dot-separated segment of a version string, in the words of the specification.\<close>

definition firstSegment :: "string \<Rightarrow> string" where
  "firstSegment v = takeWhile (\<lambda>c. c \<noteq> CHR ''.'') v"

subsection \<open>A small project, for running the model\<close>

text \<open>
  A project whose copy collaborator copies one node and creates the parents of the
  destination, whose shell knows the command \<open>make NAME\<close> (it writes the file \<open>NAME\<close>
  in the working directory) and fails on every other command, and four tasks: a chain
  \<open>linux-a\<close>, \<open>linux-b\<close>, \<open>linux-c\<close> and a task \<open>linux-f\<close> whose script fails.
\<close>

definition demoCopy :: "string \<Rightarrow> string \<Rightarrow> fsys \<Rightarrow> bool \<times> fsys" where
  "demoCopy src dst fsy =
     (if fsy src = None then (False, fsy)
      else (True, (\<lambda>q. if q \<in> set (ancestors dst) then Some Directory
                         else if q = dst then fsy src else fsy q)))"

definition demoBash :: "string \<Rightarrow> string \<Rightarrow> fsys \<Rightarrow> bool \<times> fsys" where
  "demoBash dir cmd fsy =
     (if take 5 cmd = ''make '' then (True, fsy(Join dir (drop 5 cmd) \<mapsto> File ''pkg''))
      else (False, fsy))"

definition demoEnv :: env where
  "demoEnv = \<lparr>BuildPath = ''go'',
     OutputDirectoryPath = (\<lambda>n. ''/proj/go/build/outputs/'' @ n),
     Getwd = Some ''/proj'',
     TempRoot = ''/tmp'',
     tmpSuffix = (\<lambda>n. replicate n CHR ''x''),
     denied = (\<lambda>_. False),
     GOARCH = ''amd64'',
     pubspecName = ''app'',
     GetDescription = ''An app'',
     GetAuthor = ''me'',
     AndroidOrganizationName = ''org.example'',
     GetApplicationName = (\<lambda>_. ''MyApp''),
     GetExecutableName = (\<lambda>p. p),
     GetPackageName = (\<lambda>_. ''my_app''),
     GetLicense = ''MIT'',
     AssetsBox = [''packaging/a'' \<mapsto> ''content''],
     Copy = demoCopy,
     CopyTemplateDir = (\<lambda>src dst data fsy. (Returned, fsy)),
     bash = demoBash\<rparr>"

definition demoTask :: "string \<Rightarrow> (packagingTask \<times> string) list \<Rightarrow> string \<Rightarrow> string \<Rightarrow> bool \<Rightarrow> packagingTask" where
  "demoTask n deps script ext useApp =
     PackagingTask n deps [(''a'', ''sub/a'')] []
       ''/usr/bin/{{.executableName}}'' ''/usr/share/icons/{{.packageName}}.png''
       None [] script ext True useApp False"

definition taskC :: packagingTask where
  "taskC = demoTask ''linux-c'' [] ''make {{.packageName}}-{{.version}}.c'' ''c'' False"

definition taskB :: packagingTask where
  "taskB = demoTask ''linux-b'' [(taskC, ''c'')] ''make {{.packageName}}-{{.version}}.b'' ''b'' False"

definition taskA :: packagingTask where
  "taskA = demoTask ''linux-a'' [(taskB, ''b'')] ''make {{.packageName}}-{{.version}}.a'' ''a'' False"

definition taskF :: packagingTask where
  "taskF = demoTask ''linux-f'' [] ''exit 1'' ''f'' False"

definition demoWorld :: world where
  "demoWorld = \<lparr>fs = [''/tmp'' \<mapsto> Directory,
                       ''/proj/go/build/outputs/linux-f'' \<mapsto> Directory,
                       ''/proj/go/build/outputs/linux-f/my_app-1.0.0.f'' \<mapsto> File ''old''],
                 once = False, templateData = Map.empty, tmpSeq = 0, journal = []\<rparr>"


section \<open>Properties\<close>

subsection \<open>Strings and names\<close>

lemma cut_append: "c \<notin> set a \<Longrightarrow> cut c (a @ c # b) = Some (a, b)"
  by (induction a) auto

lemma cut_None: "c \<notin> set s \<Longrightarrow> cut c s = None"
  by (induction s) auto

lemma cut_eq:
  "cut c s = (if c \<in> set s then Some (takeWhile (\<lambda>x. x \<noteq> c) s, tl (dropWhile (\<lambda>x. x \<noteq> c) s)) else None)"
  by (induction s) auto

lemma takeWhile_notin: "c \<notin> set s \<Longrightarrow> takeWhile (\<lambda>x. x \<noteq> c) s = s"
  by (induction s) auto

lemma hd_genSplit:
  "count_list s c \<le> n \<Longrightarrow>
   genSplit s c (Suc n) = takeWhile (\<lambda>x. x \<noteq> c) s # tl (genSplit s c (Suc n))"
  by (cases "c \<in> set s") (auto simp: cut_eq takeWhile_notin count_list_0_iff split: option.splits)

lemma Split_nonempty: "Split s c \<noteq> []"
  by (simp add: Split_def split: option.splits)

lemma hd_Split: "hd (Split s c) = takeWhile (\<lambda>x. x \<noteq> c) s"
  unfolding Split_def by (subst hd_genSplit) auto

lemma index_Split_0: "index (Split s c) 0 = Inr (takeWhile (\<lambda>x. x \<noteq> c) s)"
  using Split_nonempty[of s c] hd_Split[of s c] by (cases "Split s c") (auto simp: index_def)

text \<open>
  C9. When the format name has a hyphen, \<open>Name\<close> returns what follows the first
  hyphen; when it has none, \<open>Name\<close> panics with an index out of range.
\<close>

theorem Name_after_first_hyphen:
  "(\<forall>a b. packagingFormatName t = a @ CHR ''-'' # b \<and> CHR ''-'' \<notin> set a \<longrightarrow> Name t = Inr b) \<and>
   (CHR ''-'' \<notin> set (packagingFormatName t) \<longrightarrow> Name t = Inl (Panic IndexOutOfRange))"
  by (auto simp: Name_def SplitN_def index_def cut_append cut_None eval_nat_numeral)

theorem Name_after_first_hyphen_witness:
  "Name (demoTask ''linux-deb'' [] [] [] False) = Inr ''deb'' \<and>
   Name (demoTask ''linux'' [] [] [] False) = Inl (Panic IndexOutOfRange)"
  using Name_after_first_hyphen[of "demoTask ''linux-deb'' [] [] [] False",
          THEN conjunct1, rule_format, of "''linux''" "''deb''"]
        Name_after_first_hyphen[of "demoTask ''linux'' [] [] [] False", THEN conjunct2]
  by (simp add: demoTask_def)

text \<open>
  C8. The entry \<open>release\<close> of the context is the first dot-separated segment of the
  build version: the first call of \<open>getTemplateData\<close> stores it so, and returns it so
  when it returns. Of \<open>2.5.1\<close> that segment is \<open>2\<close>.
\<close>

theorem release_first_segment:
  "(\<not> once w \<longrightarrow>
      templateData (snd (getTemplateData env t projectName buildVersion w)) ''release''
        = Some (firstSegment buildVersion)) \<and>
   (\<not> once w \<and> getTemplateData env t projectName buildVersion w = (Inr data, w')
      \<longrightarrow> data ''release'' = Some (firstSegment buildVersion)) \<and>
   firstSegment ''2.5.1'' = ''2''"
  by (auto simp: getTemplateData_def index_Split_0 firstSegment_def Let_def split: sum.splits)

theorem release_first_segment_witness:
  "\<not> once demoWorld \<and>
   templateData (snd (getTemplateData demoEnv taskC ''app'' ''2.5.1'' demoWorld)) ''release'' = Some ''2''"
  using release_first_segment[of demoWorld demoEnv taskC "''app''" "''2.5.1''"]
  by (simp add: demoWorld_def)

end
